theory Spec2Isabelle
  imports Main
begin

section \<open>GeneralError (source/GeneralError.ts)\<close>

text \<open>
  JavaScript strings are modelled as \<open>string\<close>; a string is truthy exactly when it is
  not empty. An optional argument or property (\<open>source?: string\<close>) is an \<open>option\<close>,
  with \<open>None\<close> for \<open>undefined\<close>.
\<close>

text \<open>The class \<open>GeneralError\<close>: four private read-only string fields with getters.\<close>

record GeneralError =
  code :: string
  message :: string
  location :: string
  source :: string

text \<open>The plain object type \<open>GeneralErrorBag\<close>.\<close>

record GeneralErrorBag =
  bag_code :: string
  bag_message :: string
  bag_location :: string
  bag_source :: string

text \<open>
  The constructor's argument type
  \<open>Partial<GeneralErrorBag> & Pick<GeneralErrorBag, 'message'>\<close>: only \<open>message\<close> is
  required.
\<close>

record PartialBag =
  opt_code :: "string option"
  req_message :: string
  opt_location :: "string option"
  opt_source :: "string option"

text \<open>
  \<open>getLocation\<close> reads \<open>new Error().stack\<close>. The captured stack belongs to the
  environment, so it is a parameter of every function that may construct a record:
  \<open>None\<close> when the engine provides no stack. Within one call of a function below, every
  capture happens on the same call path and reads this one value.
\<close>

definition getLocation :: "string option \<Rightarrow> string" where
  "getLocation stack =
     (case stack of
        Some s \<Rightarrow> (if s \<noteq> [] then s else [])
      | None \<Rightarrow> [])"

text \<open>The constructor: \<open>??\<close> replaces only \<open>undefined\<close> (and \<open>null\<close>), never \<open>''\<close>.\<close>

definition new_GeneralError :: "string option \<Rightarrow> PartialBag \<Rightarrow> GeneralError" where
  "new_GeneralError stack d =
     \<lparr> code = (case opt_code d of Some c \<Rightarrow> c | None \<Rightarrow> []),
       message = req_message d,
       location = (case opt_location d of Some l \<Rightarrow> l | None \<Rightarrow> getLocation stack),
       source = (case opt_source d of Some s \<Rightarrow> s | None \<Rightarrow> []) \<rparr>"

definition toBag :: "GeneralError \<Rightarrow> GeneralErrorBag" where
  "toBag d =
     \<lparr> bag_code = code d, bag_message = message d,
       bag_location = location d, bag_source = source d \<rparr>"

text \<open>The object spread \<open>{ ...bag }\<close> seen as a constructor argument: every field present.\<close>

definition spread :: "GeneralErrorBag \<Rightarrow> PartialBag" where
  "spread b =
     \<lparr> opt_code = Some (bag_code b), req_message = bag_message b,
       opt_location = Some (bag_location b), opt_source = Some (bag_source b) \<rparr>"

text \<open>\<open>Array.prototype.join\<close> on an array of strings.\<close>

fun join :: "string list \<Rightarrow> string \<Rightarrow> string" where
  "join [] d = []"
| "join [x] d = x"
| "join (x # y # ys) d = x @ d @ join (y # ys) d"

text \<open>
  The non-array branch of \<open>GeneralError.toString\<close>. The array branch reaches it through
  \<open>data.map(this.toString)\<close>, which also passes the index as \<open>delimiter\<close>; this branch
  never reads the delimiter.
\<close>

definition toString_single :: "GeneralError \<Rightarrow> string" where
  "toString_single d =
     (let c = (if code d \<noteq> [] then ''['' @ code d @ '' '' @ source d @ ''] '' else []);
          l = (if location d \<noteq> [] then ''['' @ location d @ ''] '' else [])
      in c @ l @ message d)"

datatype toString_data = One GeneralError | Several "GeneralError list"

definition newline :: string where
  "newline = [CHR 0x0A]"

definition toString :: "toString_data \<Rightarrow> string option \<Rightarrow> string" where
  "toString d delimiter_arg =
     (let delimiter = (case delimiter_arg of Some s \<Rightarrow> s | None \<Rightarrow> newline)
      in case d of
           Several ds \<Rightarrow> join (map toString_single ds) delimiter
         | One e \<Rightarrow> toString_single e)"

text \<open>\<open>codeMap\<close> is a \<open>Map<string, string>\<close>: \<open>get\<close> is \<open>undefined\<close> on a missing key.\<close>

definition translate :: "string option \<Rightarrow> GeneralError \<Rightarrow> (string \<rightharpoonup> string) \<Rightarrow> GeneralError" where
  "translate stack d codeMap =
     new_GeneralError stack
       ((spread (toBag d))
          \<lparr> req_message := (case codeMap (code d) of Some m \<Rightarrow> m | None \<Rightarrow> message d) \<rparr>)"

section \<open>ResultContainer (source/ResultContainer.ts)\<close>

text \<open>A value of type \<open>string | GeneralError\<close>.\<close>

datatype error_like = Str string | Err GeneralError

definition convertError :: "string option \<Rightarrow> error_like \<Rightarrow> string option \<Rightarrow> GeneralError" where
  "convertError stack error src =
     (case error of
        Str m \<Rightarrow>
          new_GeneralError stack
            \<lparr> opt_code = None, req_message = m, opt_location = None, opt_source = src \<rparr>
      | Err e \<Rightarrow>
          new_GeneralError stack
            ((spread (toBag e))
               \<lparr> opt_source := (if source e \<noteq> [] then Some (source e) else src) \<rparr>))"

text \<open>
  The discriminated union \<open>ResultContainer<T> = FailureResult | SuccessResult<T>\<close>. The
  field \<open>success\<close> is the discriminator; \<open>data\<close> and \<open>errors\<close> are the selectors.
\<close>

datatype 'a ResultContainer =
    is_success: SuccessResult (data: 'a)
  | FailureResult (errors: "GeneralError list")

text \<open>A thrown \<open>Error\<close> with its message.\<close>

datatype exception = Error string

definition unwrap :: "string option \<Rightarrow> 'a ResultContainer \<Rightarrow> string option \<Rightarrow> exception + 'a" where
  "unwrap stack result src =
     (case result of
        SuccessResult d \<Rightarrow> Inr d
      | FailureResult es \<Rightarrow>
          Inl (Error (toString (Several (map (\<lambda>e. convertError stack (Err e) src) es)) None)))"

definition success :: "'a \<Rightarrow> 'a ResultContainer" where
  "success d = SuccessResult d"

text \<open>
  The first argument of \<open>failure\<close>:
  \<open>ReadonlyArray<GeneralError | string> | string | GeneralError\<close>.
\<close>

datatype failure_errors = Single error_like | Many "error_like list"

definition failure :: "string option \<Rightarrow> failure_errors \<Rightarrow> string option \<Rightarrow> 'a ResultContainer" where
  "failure stack errs src =
     (case errs of
        Single e \<Rightarrow> FailureResult [convertError stack e src]
      | Many es \<Rightarrow> FailureResult (map (\<lambda>e. convertError stack e src) es))"

text \<open>
  \<open>wrap(data?, errors?, source?)\<close>: \<open>None\<close> is \<open>undefined\<close> for both \<open>data\<close> and
  \<open>errors\<close>. The synthesized record is built with \<open>source\<close> and handed to \<open>failure\<close>
  without a source argument.
\<close>

definition wrap ::
  "string option \<Rightarrow> 'a option \<Rightarrow> error_like list option \<Rightarrow> string option \<Rightarrow> 'a ResultContainer" where
  "wrap stack d errs src =
     (if (case errs of Some es \<Rightarrow> length es > 0 | None \<Rightarrow> False) then
        failure stack (Many (the errs)) src
      else if d = None then
        failure stack
          (Single (Err (new_GeneralError stack
             \<lparr> opt_code = Some ''UnknownError'',
               req_message = ''No value for data was provided, but no errors were either.'',
               opt_location = None, opt_source = src \<rparr>)))
          None
      else success (the d))"

text \<open>
  The \<open>forEach\<close> loop of \<open>collect\<close> and \<open>collectAny\<close>: the state is the pair of the
  arrays \<open>errors\<close> and \<open>data\<close>, each grown by \<open>push\<close>.
\<close>

definition collect_step ::
  "'a ResultContainer \<Rightarrow> GeneralError list \<times> 'a list \<Rightarrow> GeneralError list \<times> 'a list" where
  "collect_step result st =
     (case st of (errs, ds) \<Rightarrow>
        (case result of
           SuccessResult d \<Rightarrow> (errs, ds @ [d])
         | FailureResult es \<Rightarrow> (errs @ es, ds)))"

definition collect :: "string option \<Rightarrow> 'a ResultContainer list \<Rightarrow> string option \<Rightarrow> 'a list ResultContainer" where
  "collect stack results src =
     (case fold collect_step results ([], []) of
        (errs, ds) \<Rightarrow> wrap stack (Some ds) (Some (map Err errs)) src)"

definition collectAny :: "string option \<Rightarrow> 'a ResultContainer list \<Rightarrow> string option \<Rightarrow> 'a list ResultContainer" where
  "collectAny stack results src =
     (case fold collect_step results ([], []) of
        (errs, ds) \<Rightarrow>
          if length ds > 0 then success ds
          else failure stack (Many (map Err errs)) src)"

subsection \<open>Plain objects as keyed results\<close>

text \<open>
  A plain object \<open>Record<string, T>\<close> is modelled by the list of its own enumerable
  properties in property order, which is the order of \<open>Object.keys\<close> and
  \<open>Object.entries\<close>: first the keys that are array indices (canonical decimal numerals
  below \<open>2^32 - 1\<close>) in ascending numeric order, then every other key in the order of
  its creation.
\<close>

type_synonym 'a js_object = "(string \<times> 'a) list"

definition is_digit :: "char \<Rightarrow> bool" where
  "is_digit c \<longleftrightarrow> c \<in> set ''0123456789''"

definition digits_value :: "string \<Rightarrow> int" where
  "digits_value s = fold (\<lambda>c n. 10 * n + (of_char c - 48)) s 0"

definition array_index :: "string \<Rightarrow> int option" where
  "array_index k =
     (if k \<noteq> [] \<and> list_all is_digit k \<and> (k = ''0'' \<or> hd k \<noteq> CHR ''0'')
         \<and> digits_value k < 2 ^ 32 - 1
      then Some (digits_value k) else None)"

fun insert_index :: "int \<Rightarrow> string \<Rightarrow> 'a \<Rightarrow> 'a js_object \<Rightarrow> 'a js_object" where
  "insert_index n k v [] = [(k, v)]"
| "insert_index n k v (p # ps) =
     (case array_index (fst p) of
        Some m \<Rightarrow> if m < n then p # insert_index n k v ps else (k, v) # p # ps
      | None \<Rightarrow> (k, v) # p # ps)"

text \<open>
  The assignment \<open>obj[key] = value\<close> on an object created by \<open>{}\<close>. An existing own
  property keeps its place; a new one is created at its place in property order. The
  key \<open>__proto__\<close> is the accessor inherited from \<open>Object.prototype\<close>: assigning to it
  creates no own property. Values are opaque, so the prototype itself is not modelled.
\<close>

definition js_set :: "'a js_object \<Rightarrow> string \<Rightarrow> 'a \<Rightarrow> 'a js_object" where
  "js_set obj k v =
     (if k = ''__proto__'' then obj
      else if k \<in> fst ` set obj then map (\<lambda>p. if fst p = k then (k, v) else p) obj
      else (case array_index k of
              Some n \<Rightarrow> insert_index n k v obj
            | None \<Rightarrow> obj @ [(k, v)]))"

text \<open>
  The argument of \<open>compose\<close> and \<open>composeAny\<close> is a plain object or a \<open>Map\<close>. The loop
  runs over \<open>Object.entries(results)\<close> (property order) or over \<open>results.entries()\<close>
  (insertion order of the \<open>Map\<close>).
\<close>

datatype 'a keyed = OfRecord "'a js_object" | OfMap "(string \<times> 'a) list"

definition entries :: "'a keyed \<Rightarrow> (string \<times> 'a) list" where
  "entries results = (case results of OfMap m \<Rightarrow> m | OfRecord obj \<Rightarrow> obj)"

definition compose_step ::
  "string \<times> 'a ResultContainer \<Rightarrow> 'a js_object \<times> GeneralError list \<Rightarrow> 'a js_object \<times> GeneralError list" where
  "compose_step kv st =
     (case st of (result, errs) \<Rightarrow>
        (case snd kv of
           SuccessResult d \<Rightarrow> (js_set result (fst kv) d, errs)
         | FailureResult es \<Rightarrow> (result, errs @ es)))"

definition compose ::
  "string option \<Rightarrow> 'a ResultContainer keyed \<Rightarrow> string option \<Rightarrow> 'a js_object ResultContainer" where
  "compose stack results src =
     (case fold compose_step (entries results) ([], []) of
        (result, errs) \<Rightarrow> wrap stack (Some result) (Some (map Err errs)) src)"

definition composeAny ::
  "string option \<Rightarrow> 'a ResultContainer keyed \<Rightarrow> string option \<Rightarrow> 'a js_object ResultContainer" where
  "composeAny stack results src =
     (case fold compose_step (entries results) ([], []) of
        (d, errs) \<Rightarrow>
          if length (map fst d) > 0 then success d
          else failure stack (Many (map Err errs)) src)"

section \<open>Notions of the specification\<close>

text \<open>\<open>fromString\<close> of source/error-factories.ts, the normalizer of plain messages.\<close>

definition fromString :: "string option \<Rightarrow> string \<Rightarrow> string option \<Rightarrow> GeneralError" where
  "fromString stack m src =
     new_GeneralError stack
       \<lparr> opt_code = None, req_message = m, opt_location = None, opt_source = src \<rparr>"

text \<open>
  Source back-fill as the specification words it: a record whose own source is empty
  receives the supplied source; every other field, and a non-empty source, is kept.
\<close>

definition backfill :: "string option \<Rightarrow> GeneralError \<Rightarrow> GeneralError" where
  "backfill src e =
     (case src of
        Some s \<Rightarrow> (if source e = [] then e\<lparr> source := s \<rparr> else e)
      | None \<Rightarrow> e)"

text \<open>
  Normalization of one input of \<open>failure\<close> as the specification words it: a string
  goes through \<open>fromString\<close>, a record is back-filled.
\<close>

definition normalize :: "string option \<Rightarrow> string option \<Rightarrow> error_like \<Rightarrow> GeneralError" where
  "normalize stack src x =
     (case x of Str m \<Rightarrow> fromString stack m src | Err e \<Rightarrow> backfill src e)"

text \<open>
  The source a result record is expected to carry when the source \<open>s\<close> is supplied:
  the input's own source when that is not empty, and \<open>s\<close> for a string and for a
  record whose own source is empty.
\<close>

definition own_source :: "error_like \<Rightarrow> string" where
  "own_source x = (case x of Str m \<Rightarrow> [] | Err e \<Rightarrow> source e)"

definition expected_source :: "string \<Rightarrow> error_like \<Rightarrow> string" where
  "expected_source s x = (if own_source x \<noteq> [] then own_source x else s)"

text \<open>
  The concatenation, in input order, of every failing outcome's own error sequence, and
  the data of the successful outcomes in input order.
\<close>

definition all_errors :: "'a ResultContainer list \<Rightarrow> GeneralError list" where
  "all_errors rs =
     concat (map (\<lambda>r. case r of FailureResult es \<Rightarrow> es | SuccessResult d \<Rightarrow> []) rs)"

definition all_data :: "'a ResultContainer list \<Rightarrow> 'a list" where
  "all_data rs = map data (filter is_success rs)"

text \<open>The succeeding entries of a keyed input, each key with its data, in iteration order.\<close>

definition succeeded :: "(string \<times> 'a ResultContainer) list \<Rightarrow> (string \<times> 'a) list" where
  "succeeded kvs = map (\<lambda>kv. (fst kv, data (snd kv))) (filter (\<lambda>kv. is_success (snd kv)) kvs)"

text \<open>The object obtained from \<open>{}\<close> by assigning the given entries one after the other.\<close>

definition from_entries :: "(string \<times> 'a) list \<Rightarrow> 'a js_object" where
  "from_entries kvs = fold (\<lambda>kv obj. js_set obj (fst kv) (snd kv)) kvs []"

text \<open>
  A sequence of keys is in property order when its array indices come first, in
  strictly ascending order. \<open>Object.entries\<close> of any object is in property order.
\<close>

fun property_ordered :: "string list \<Rightarrow> bool" where
  "property_ordered [] = True"
| "property_ordered [k] = True"
| "property_ordered (k # k' # ks) =
     ((case array_index k' of
         Some n \<Rightarrow> (case array_index k of Some m \<Rightarrow> m < n | None \<Rightarrow> False)
       | None \<Rightarrow> True)
      \<and> property_ordered (k' # ks))"

section \<open>Auxiliary lemmas\<close>

subsection \<open>Error conversion and the accumulation loops\<close>

lemma convertError_Err: "convertError stack (Err e) src = backfill src e"
  by (simp add: convertError_def backfill_def new_GeneralError_def spread_def toBag_def
      split: option.splits)

lemma convertError_normalize: "convertError stack x src = normalize stack src x"
  by (cases x) (simp_all add: normalize_def convertError_Err, simp add: convertError_def fromString_def)

lemma collect_step_simps:
  "collect_step (SuccessResult d) (errs, ds) = (errs, ds @ [d])"
  "collect_step (FailureResult es) (errs, ds) = (errs @ es, ds)"
  by (simp_all add: collect_step_def)

lemma all_errors_simps:
  "all_errors [] = []"
  "all_errors (SuccessResult d # rs) = all_errors rs"
  "all_errors (FailureResult es # rs) = es @ all_errors rs"
  by (simp_all add: all_errors_def)

lemma all_data_simps:
  "all_data [] = []"
  "all_data (SuccessResult d # rs) = d # all_data rs"
  "all_data (FailureResult es # rs) = all_data rs"
  by (simp_all add: all_data_def)

lemma fold_collect_step:
  "fold collect_step rs (errs, ds) = (errs @ all_errors rs, ds @ all_data rs)"
proof (induction rs arbitrary: errs ds)
  case Nil
  show ?case by (simp add: all_errors_simps all_data_simps)
next
  case (Cons r rs)
  show ?case
    by (cases r) (simp_all add: collect_step_simps Cons.IH all_errors_simps all_data_simps)
qed

lemma collect_eq:
  "collect stack rs src =
     (if all_errors rs \<noteq> [] then FailureResult (map (backfill src) (all_errors rs))
      else SuccessResult (all_data rs))"
  by (simp add: collect_def fold_collect_step wrap_def failure_def success_def
      convertError_Err comp_def)

lemma collectAny_eq:
  "collectAny stack rs src =
     (if all_data rs \<noteq> [] then SuccessResult (all_data rs)
      else FailureResult (map (backfill src) (all_errors rs)))"
  by (simp add: collectAny_def fold_collect_step failure_def success_def
      convertError_Err comp_def)

lemma compose_step_simps:
  "compose_step (k, SuccessResult d) (obj, errs) = (js_set obj k d, errs)"
  "compose_step (k, FailureResult es) (obj, errs) = (obj, errs @ es)"
  by (simp_all add: compose_step_def)

lemma succeeded_simps:
  "succeeded [] = []"
  "succeeded ((k, SuccessResult d) # kvs) = (k, d) # succeeded kvs"
  "succeeded ((k, FailureResult es) # kvs) = succeeded kvs"
  by (simp_all add: succeeded_def)

lemma fold_compose_step:
  "fold compose_step kvs (obj, errs) =
     (fold (\<lambda>kv obj. js_set obj (fst kv) (snd kv)) (succeeded kvs) obj,
      errs @ all_errors (map snd kvs))"
proof (induction kvs arbitrary: obj errs)
  case Nil
  show ?case by (simp add: all_errors_simps succeeded_simps)
next
  case (Cons kv kvs)
  obtain k r where kv: "kv = (k, r)" by (cases kv)
  show ?case unfolding kv
    by (cases r) (simp_all add: compose_step_simps Cons.IH all_errors_simps succeeded_simps)
qed

lemma compose_eq:
  "compose stack kr src =
     (if all_errors (map snd (entries kr)) \<noteq> []
      then FailureResult (map (backfill src) (all_errors (map snd (entries kr))))
      else SuccessResult (from_entries (succeeded (entries kr))))"
  by (simp add: compose_def fold_compose_step wrap_def failure_def success_def
      convertError_Err comp_def from_entries_def)

lemma composeAny_eq:
  "composeAny stack kr src =
     (if from_entries (succeeded (entries kr)) \<noteq> []
      then SuccessResult (from_entries (succeeded (entries kr)))
      else FailureResult (map (backfill src) (all_errors (map snd (entries kr)))))"
  by (simp add: composeAny_def fold_compose_step failure_def success_def
      convertError_Err comp_def from_entries_def)

subsection \<open>Assignment to a plain object\<close>

lemma insert_index_append:
  "\<forall>p\<in>set obj. \<exists>m. array_index (fst p) = Some m \<and> m < n \<Longrightarrow>
   insert_index n k v obj = obj @ [(k, v)]"
  by (induction obj) auto

lemma property_ordered_appendD: "property_ordered (xs @ ys) \<Longrightarrow> property_ordered xs"
  by (induction xs rule: property_ordered.induct) auto

lemma property_ordered_snoc_index:
  "property_ordered (ks @ [k]) \<Longrightarrow> array_index k = Some n \<Longrightarrow>
   \<forall>k'\<in>set ks. \<exists>m. array_index k' = Some m \<and> m < n"
proof (induction ks rule: property_ordered.induct)
  case 1
  then show ?case by simp
next
  case (2 k0)
  then show ?case by (auto split: option.splits)
next
  case (3 k0 k1 ks)
  then show ?case by (fastforce split: option.splits)
qed

lemma js_set_append:
  assumes "k \<noteq> ''__proto__''" and "k \<notin> fst ` set obj"
    and "property_ordered (map fst obj @ [k])"
  shows "js_set obj k v = obj @ [(k, v)]"
proof (cases "array_index k")
  case None
  with assms show ?thesis by (simp add: js_set_def)
next
  case (Some n)
  from property_ordered_snoc_index [OF assms(3) Some]
  have "\<forall>p\<in>set obj. \<exists>m. array_index (fst p) = Some m \<and> m < n" by simp
  then have "insert_index n k v obj = obj @ [(k, v)]" by (rule insert_index_append)
  with assms Some show ?thesis by (simp add: js_set_def)
qed

lemma fold_js_set_ordered:
  "distinct (map fst (acc @ kvs)) \<Longrightarrow> ''__proto__'' \<notin> fst ` set kvs \<Longrightarrow>
   property_ordered (map fst (acc @ kvs)) \<Longrightarrow>
   fold (\<lambda>kv obj. js_set obj (fst kv) (snd kv)) kvs acc = acc @ kvs"
proof (induction kvs arbitrary: acc)
  case Nil
  show ?case by simp
next
  case (Cons kv kvs)
  have po: "property_ordered (map fst acc @ [fst kv])"
    using Cons.prems(3) property_ordered_appendD [of "map fst acc @ [fst kv]" "map fst kvs"]
    by simp
  have step: "js_set acc (fst kv) (snd kv) = acc @ [kv]"
    using js_set_append [of "fst kv" acc "snd kv"] Cons.prems(1,2) po by auto
  have "fold (\<lambda>kv obj. js_set obj (fst kv) (snd kv)) kvs (acc @ [kv]) = (acc @ [kv]) @ kvs"
    using Cons.prems by (intro Cons.IH) auto
  with step show ?case by simp
qed

lemma from_entries_ordered:
  "distinct (map fst kvs) \<Longrightarrow> ''__proto__'' \<notin> fst ` set kvs \<Longrightarrow>
   property_ordered (map fst kvs) \<Longrightarrow> from_entries kvs = kvs"
  using fold_js_set_ordered [of "[]" kvs] by (simp add: from_entries_def)

lemma set_insert_index: "set (insert_index n k v obj) = insert (k, v) (set obj)"
  by (induction obj) (auto split: option.splits)

lemma distinct_insert_index:
  "k \<notin> fst ` set obj \<Longrightarrow> distinct (map fst obj) \<Longrightarrow>
   distinct (map fst (insert_index n k v obj))"
  by (induction obj) (auto simp: set_insert_index split: option.splits)

lemma js_set_new:
  assumes "k \<noteq> ''__proto__''" and "k \<notin> fst ` set obj"
  shows "set (js_set obj k v) = insert (k, v) (set obj)"
    and "distinct (map fst obj) \<Longrightarrow> distinct (map fst (js_set obj k v))"
  using assms
  by (auto simp: js_set_def set_insert_index distinct_insert_index split: option.splits)

lemma fold_js_set_set:
  "distinct (map fst (acc @ kvs)) \<Longrightarrow> ''__proto__'' \<notin> fst ` set kvs \<Longrightarrow>
   set (fold (\<lambda>kv obj. js_set obj (fst kv) (snd kv)) kvs acc) = set acc \<union> set kvs
   \<and> distinct (map fst (fold (\<lambda>kv obj. js_set obj (fst kv) (snd kv)) kvs acc))"
proof (induction kvs arbitrary: acc)
  case Nil
  then show ?case by simp
next
  case (Cons kv kvs)
  have new: "fst kv \<noteq> ''__proto__''" "fst kv \<notin> fst ` set acc"
    using Cons.prems by auto
  have s: "set (js_set acc (fst kv) (snd kv)) = insert kv (set acc)"
    using js_set_new(1) [OF new] by simp
  have d: "distinct (map fst (js_set acc (fst kv) (snd kv)))"
    using js_set_new(2) [OF new] Cons.prems(1) by simp
  have "distinct (map fst (js_set acc (fst kv) (snd kv) @ kvs))"
    using d s Cons.prems(1) by (auto simp: image_iff)
  from Cons.IH [OF this] Cons.prems(2) s show ?case by auto
qed

lemma from_entries_set:
  assumes "distinct (map fst kvs)" and "''__proto__'' \<notin> fst ` set kvs"
  shows "set (from_entries kvs) = set kvs" and "distinct (map fst (from_entries kvs))"
  using fold_js_set_set [of "[]" kvs] assms by (simp_all add: from_entries_def)

lemma from_entries_lookup:
  assumes "distinct (map fst kvs)" and "''__proto__'' \<notin> fst ` set kvs"
  shows "map_of (from_entries kvs) = map_of kvs"
  using from_entries_set [OF assms] assms(1) by (simp add: map_of_inject_set)

lemma join_Cons: "join (x # xs) d = x @ concat (map (\<lambda>y. d @ y) xs)"
  by (induction xs arbitrary: x) simp_all

lemma all_data_empty_iff: "all_data rs = [] \<longleftrightarrow> (\<forall>r\<in>set rs. \<not> is_success r)"
  by (simp add: all_data_def filter_empty_conv)

lemma backfill_None: "map (backfill None) es = es"
  by (induction es) (simp_all add: backfill_def)

lemma source_normalize: "source (normalize stack (Some s) x) = expected_source s x"
  by (cases x)
    (simp_all add: normalize_def fromString_def new_GeneralError_def backfill_def
      expected_source_def own_source_def)

lemma source_backfill: "source (backfill (Some s) e) = expected_source s (Err e)"
  by (simp add: backfill_def expected_source_def own_source_def)

lemma expected_source_nonempty: "s \<noteq> [] \<Longrightarrow> expected_source s x \<noteq> []"
  by (simp add: expected_source_def)

section \<open>The claims\<close>

text \<open>
  Claim C3. \<open>collect\<close> applied to an empty sequence of outcomes returns Success whose
  data is the empty sequence: it hands \<open>wrap\<close> the empty array as data, a present
  value, so the absent-data rule of \<open>wrap\<close> is not triggered.
\<close>

theorem collect_empty:
  "collect stack [] src = SuccessResult []
   \<and> collect stack [] src = wrap stack (Some []) (Some []) src"
  by (simp add: collect_def wrap_def success_def)

text \<open>
  Claim C6. \<open>wrap(data, errors, source)\<close> returns \<open>failure(errors, source)\<close> whenever
  \<open>errors\<close> is non-empty. Otherwise (\<open>errors\<close> omitted or empty), if \<open>data\<close> is
  \<open>undefined\<close> it returns a Failure with exactly one synthesized record, whose message is
  "No value for data was provided, but no errors were either." and whose code is
  "UnknownError"; and if \<open>data\<close> is present it returns Success with that data. In
  particular \<open>wrap([], [])\<close> is Success with an empty sequence.
\<close>

theorem wrap_cases:
  "(es \<noteq> [] \<longrightarrow> wrap stack (d :: 'a option) (Some es) src = failure stack (Many es) src)
   \<and> (errs = None \<or> errs = Some [] \<longrightarrow>
        (wrap stack None errs src :: 'a ResultContainer) =
          FailureResult
            [\<lparr> code = ''UnknownError'',
               message = ''No value for data was provided, but no errors were either.'',
               location = getLocation stack,
               source = (case src of Some s \<Rightarrow> s | None \<Rightarrow> []) \<rparr>])
   \<and> (errs = None \<or> errs = Some [] \<longrightarrow> wrap stack (Some (v :: 'a)) errs src = SuccessResult v)
   \<and> wrap stack (Some ([] :: 'a list)) (Some []) src = SuccessResult []"
  by (auto simp: wrap_def success_def failure_def convertError_def new_GeneralError_def
      spread_def toBag_def split: option.splits)

theorem wrap_cases_witness:
  "wrap None (Some (7::nat)) (Some [Str ''boom'']) None = failure None (Many [Str ''boom'']) None
   \<and> wrap (Some ''at main'') (None :: nat option) (Some []) (Some ''db'') =
        FailureResult
          [\<lparr> code = ''UnknownError'',
             message = ''No value for data was provided, but no errors were either.'',
             location = ''at main'', source = ''db'' \<rparr>]
   \<and> wrap None (Some (7::nat)) None None = SuccessResult 7
   \<and> wrap None (Some ([] :: nat list)) (Some []) None = SuccessResult []"
  using wrap_cases [where ?'a = nat and es = "[Str ''boom'']" and stack = None and d = "Some 7" and src = None
       and errs = None and v = 7]
    wrap_cases [where ?'a = nat and stack = "Some ''at main''" and errs = "Some []" and src = "Some ''db''"
        and d = None and es = "[]" and v = 7]
  by (simp add: getLocation_def)

text \<open>
  Claim C7. \<open>unwrap\<close> applied to a Success returns its data unchanged. Applied to a
  Failure it throws an \<open>Error\<close> whose message is \<open>GeneralError.toString\<close> of the
  contained records, each with its source back-filled by the source argument when its
  own source is empty: the single-record renderings joined by a newline.
\<close>

theorem unwrap_cases:
  "unwrap stack (SuccessResult v) src = Inr v
   \<and> unwrap stack (FailureResult es) src =
       Inl (Error (toString (Several (map (backfill src) es)) None))
   \<and> toString (Several (map (backfill src) es)) None =
       join (map (\<lambda>e. toString (One (backfill src e)) None) es) [CHR 0x0A]"
  by (simp add: unwrap_def convertError_Err toString_def newline_def comp_def)

text \<open>
  Claim C8. The single-record format is \<open>[code source] [location] message\<close>, where
  the \<open>[code source]\<close> segment is omitted exactly when the code is empty and the
  \<open>[location]\<close> segment is omitted exactly when the location is empty. A sequence of
  records is formatted as the independently formatted records joined by the delimiter,
  which defaults to a newline.
\<close>

theorem toString_format:
  "(code e \<noteq> [] \<and> location e \<noteq> [] \<longrightarrow>
      toString (One e) dl =
        ''['' @ code e @ '' '' @ source e @ ''] ['' @ location e @ ''] '' @ message e)
   \<and> (code e = [] \<and> location e \<noteq> [] \<longrightarrow>
      toString (One e) dl = ''['' @ location e @ ''] '' @ message e)
   \<and> (code e \<noteq> [] \<and> location e = [] \<longrightarrow>
      toString (One e) dl = ''['' @ code e @ '' '' @ source e @ ''] '' @ message e)
   \<and> (code e = [] \<and> location e = [] \<longrightarrow> toString (One e) dl = message e)
   \<and> toString (Several []) dl = []
   \<and> toString (Several (e # es)) (Some d) =
       toString (One e) None @ concat (map (\<lambda>x. d @ toString (One x) None) es)
   \<and> toString (Several (e # es)) None =
       toString (One e) None @ concat (map (\<lambda>x. [CHR 0x0A] @ toString (One x) None) es)"
  by (simp add: toString_def toString_single_def newline_def join_Cons comp_def)

theorem toString_format_witness:
  "toString (One \<lparr> code = ''E404'', message = ''not found'', location = ''/items'', source = ''api'' \<rparr>) None
     = ''[E404 api] [/items] not found''
   \<and> toString (One \<lparr> code = [], message = ''not found'', location = ''/items'', source = ''api'' \<rparr>) None
     = ''[/items] not found''
   \<and> toString (One \<lparr> code = ''E404'', message = ''not found'', location = [], source = ''api'' \<rparr>) None
     = ''[E404 api] not found''
   \<and> toString (One \<lparr> code = [], message = ''not found'', location = [], source = ''api'' \<rparr>) None
     = ''not found''
   \<and> toString (Several
        [\<lparr> code = ''E404'', message = ''not found'', location = [], source = ''api'' \<rparr>,
         \<lparr> code = [], message = ''bad'', location = ''/x'', source = [] \<rparr>]) (Some '', '')
     = ''[E404 api] not found, [/x] bad''"
  using
    toString_format [where e = "\<lparr> code = ''E404'', message = ''not found'', location = ''/items'', source = ''api'' \<rparr>"
      and dl = None and es = "[]" and d = "[]"]
    toString_format [where e = "\<lparr> code = [], message = ''not found'', location = ''/items'', source = ''api'' \<rparr>"
      and dl = None and es = "[]" and d = "[]"]
    toString_format [where e = "\<lparr> code = ''E404'', message = ''not found'', location = [], source = ''api'' \<rparr>"
      and dl = None and d = "'', ''"
      and es = "[\<lparr> code = [], message = ''bad'', location = ''/x'', source = [] \<rparr>]"]
    toString_format [where e = "\<lparr> code = [], message = ''not found'', location = [], source = ''api'' \<rparr>"
      and dl = None and es = "[]" and d = "[]"]
    toString_format [where e = "\<lparr> code = [], message = ''bad'', location = ''/x'', source = [] \<rparr>"
      and dl = None and es = "[]" and d = "[]"]
  by simp

text \<open>
  Claim C9. \<open>translate\<close> returns a record whose message is \<open>codeMap[record.code]\<close>
  when \<open>codeMap\<close> contains the key \<open>record.code\<close>, and the input record's message
  otherwise; code, location and source are those of the input. The function is pure:
  it builds a new record and leaves its arguments as they are.
\<close>

theorem translate_fields:
  "(codeMap (code e) = Some m \<longrightarrow> message (translate stack e codeMap) = m)
   \<and> (codeMap (code e) = None \<longrightarrow> message (translate stack e codeMap) = message e)
   \<and> code (translate stack e codeMap) = code e
   \<and> location (translate stack e codeMap) = location e
   \<and> source (translate stack e codeMap) = source e"
  by (simp add: translate_def new_GeneralError_def spread_def toBag_def)

theorem translate_fields_witness:
  "message (translate None \<lparr> code = ''E1'', message = ''failed'', location = ''here'', source = ''db'' \<rparr>
      [''E1'' \<mapsto> ''echec'']) = ''echec''
   \<and> message (translate None \<lparr> code = ''E2'', message = ''failed'', location = ''here'', source = ''db'' \<rparr>
      [''E1'' \<mapsto> ''echec'']) = ''failed''"
  using
    translate_fields [where e = "\<lparr> code = ''E1'', message = ''failed'', location = ''here'', source = ''db'' \<rparr>"
      and codeMap = "[''E1'' \<mapsto> ''echec'']" and m = "''echec''" and stack = None]
    translate_fields [where e = "\<lparr> code = ''E2'', message = ''failed'', location = ''here'', source = ''db'' \<rparr>"
      and codeMap = "[''E1'' \<mapsto> ''echec'']" and m = "[]" and stack = None]
  by simp

text \<open>
  Claim C1, as amended. A Failure returned by \<open>wrap\<close>, \<open>collect\<close> or \<open>compose\<close>
  always carries at least one error. \<open>failure\<close> returns a Failure with one error per
  supplied string or record (exactly one for a single value), and a Failure returned by
  \<open>collectAny\<close> or \<open>composeAny\<close> carries as many errors as the input outcomes hold
  together: these are empty when the supplied errors are.
\<close>

theorem failure_errors_length:
  "(\<not> is_success (wrap stack (d :: 'a option) errs src) \<longrightarrow>
      1 \<le> length (errors (wrap stack d errs src)))
   \<and> (\<not> is_success (collect stack (rs :: 'a ResultContainer list) src) \<longrightarrow>
      1 \<le> length (errors (collect stack rs src)))
   \<and> (\<not> is_success (compose stack (kr :: 'a ResultContainer keyed) src) \<longrightarrow>
      1 \<le> length (errors (compose stack kr src)))
   \<and> (failure stack (Single x) src :: 'a ResultContainer) = FailureResult [normalize stack src x]
   \<and> (failure stack (Many xs) src :: 'a ResultContainer) = FailureResult (map (normalize stack src) xs)
   \<and> length (map (normalize stack src) xs) = length xs
   \<and> (\<not> is_success (collectAny stack rs src) \<longrightarrow>
      length (errors (collectAny stack rs src)) = length (all_errors rs))
   \<and> (\<not> is_success (composeAny stack kr src) \<longrightarrow>
      length (errors (composeAny stack kr src)) = length (all_errors (map snd (entries kr))))"
proof -
  have w: "\<not> is_success (wrap stack d errs src) \<longrightarrow> 1 \<le> length (errors (wrap stack d errs src))"
    by (cases errs) (auto simp: wrap_def failure_def success_def Suc_le_eq)
  have c: "\<not> is_success (collect stack rs src) \<longrightarrow> 1 \<le> length (errors (collect stack rs src))"
    by (simp add: collect_eq Suc_le_eq)
  have k: "\<not> is_success (compose stack kr src) \<longrightarrow> 1 \<le> length (errors (compose stack kr src))"
    by (simp add: compose_eq Suc_le_eq)
  have f1: "(failure stack (Single x) src :: 'a ResultContainer) = FailureResult [normalize stack src x]"
    by (simp add: failure_def convertError_normalize)
  have f2: "(failure stack (Many xs) src :: 'a ResultContainer) = FailureResult (map (normalize stack src) xs)"
    by (simp add: failure_def convertError_normalize)
  have ca: "\<not> is_success (collectAny stack rs src) \<longrightarrow>
      length (errors (collectAny stack rs src)) = length (all_errors rs)"
    by (simp add: collectAny_eq)
  have ka: "\<not> is_success (composeAny stack kr src) \<longrightarrow>
      length (errors (composeAny stack kr src)) = length (all_errors (map snd (entries kr)))"
    by (simp add: composeAny_eq)
  from w c k f1 f2 ca ka show ?thesis by simp
qed

theorem failure_errors_length_witness:
  "\<not> is_success (wrap None (None :: nat option) None None)
   \<and> 1 \<le> length (errors (wrap None (None :: nat option) None None))
   \<and> \<not> is_success (collect None [FailureResult [\<lparr> code = [], message = ''e'', location = [], source = [] \<rparr>] :: nat ResultContainer] None)
   \<and> 1 \<le> length (errors (collect None [FailureResult [\<lparr> code = [], message = ''e'', location = [], source = [] \<rparr>] :: nat ResultContainer] None))
   \<and> \<not> is_success (compose None (OfMap [(''a'', FailureResult [\<lparr> code = [], message = ''e'', location = [], source = [] \<rparr>] :: nat ResultContainer)]) None)
   \<and> 1 \<le> length (errors (compose None (OfMap [(''a'', FailureResult [\<lparr> code = [], message = ''e'', location = [], source = [] \<rparr>] :: nat ResultContainer)]) None))
   \<and> \<not> is_success (collectAny None [FailureResult [\<lparr> code = [], message = ''e'', location = [], source = [] \<rparr>] :: nat ResultContainer] None)
   \<and> length (errors (collectAny None [FailureResult [\<lparr> code = [], message = ''e'', location = [], source = [] \<rparr>] :: nat ResultContainer] None)) = 1
   \<and> \<not> is_success (composeAny None (OfMap [(''a'', FailureResult [\<lparr> code = [], message = ''e'', location = [], source = [] \<rparr>] :: nat ResultContainer)]) None)
   \<and> length (errors (composeAny None (OfMap [(''a'', FailureResult [\<lparr> code = [], message = ''e'', location = [], source = [] \<rparr>] :: nat ResultContainer)]) None)) = 1"
proof -
  let ?e = "\<lparr> code = [], message = ''e'', location = [], source = [] \<rparr>"
  let ?rs = "[FailureResult [?e] :: nat ResultContainer]"
  let ?kr = "OfMap [(''a'', FailureResult [?e] :: nat ResultContainer)]"
  have h: "\<not> is_success (wrap None (None :: nat option) None None)"
    "\<not> is_success (collect None ?rs None)"
    "\<not> is_success (compose None ?kr None)"
    "\<not> is_success (collectAny None ?rs None)"
    "\<not> is_success (composeAny None ?kr None)"
    by (simp_all add: wrap_def failure_def collect_def collectAny_def compose_def composeAny_def
        collect_step_def compose_step_def entries_def)
  have n: "length (all_errors ?rs) = 1" "length (all_errors (map snd (entries ?kr))) = 1"
    by (simp_all add: all_errors_def entries_def)
  from failure_errors_length [where ?'a = nat and stack = None and d = None and errs = None
      and src = None and rs = ?rs and kr = ?kr and x = "Str []" and xs = "[]"] h n
  show ?thesis by simp
qed

text \<open>
  The claim as stated fails: \<open>failure([])\<close>, \<open>collectAny([])\<close> and \<open>composeAny({})\<close>
  return a Failure whose error sequence is empty.
\<close>

theorem failure_nonempty_counterexample:
  "\<not> is_success (failure None (Many []) None :: nat ResultContainer)
   \<and> length (errors (failure None (Many []) None :: nat ResultContainer)) = 0
   \<and> \<not> is_success (collectAny None ([] :: nat ResultContainer list) None)
   \<and> length (errors (collectAny None ([] :: nat ResultContainer list) None)) = 0
   \<and> \<not> is_success (composeAny None (OfRecord ([] :: (string \<times> nat ResultContainer) list)) None)
   \<and> length (errors (composeAny None (OfRecord ([] :: (string \<times> nat ResultContainer) list)) None)) = 0"
  by (simp add: failure_def collectAny_def composeAny_def entries_def)

text \<open>
  Claim C2 at its failing input. A failing outcome with an empty error sequence, such as
  \<open>failure([])\<close> returns, leaves the array \<open>errors\<close> of \<open>collect\<close> empty, so
  \<open>wrap\<close> returns Success with the data of the other outcomes although an input
  failed.
\<close>

theorem collect_empty_failure_is_success:
  "collect stack [SuccessResult (1::nat), FailureResult [], SuccessResult 2] src
     = SuccessResult [1, 2]
   \<and> collect stack [FailureResult [] :: nat ResultContainer] src = SuccessResult []
   \<and> collect stack [failure stack (Many []) src :: nat ResultContainer] src = SuccessResult []"
  by (simp add: collect_def collect_step_def wrap_def success_def failure_def)

text \<open>
  Claim C4, as amended. For every sequence of outcomes with at least one Success,
  \<open>collectAny\<close> returns Success whose data is the successful outcomes' data in input
  order. For every sequence without a Success it returns Failure with the concatenation
  of all input outcomes' errors in input order, each record's source back-filled by the
  source argument when its own source is empty; without a source argument the records
  are the inputs' records.
\<close>

theorem collectAny_policy:
  "((\<exists>r\<in>set rs. is_success r) \<longrightarrow> collectAny stack rs src = SuccessResult (all_data rs))
   \<and> ((\<forall>r\<in>set rs. \<not> is_success r) \<longrightarrow>
        collectAny stack rs src = FailureResult (map (backfill src) (all_errors rs)))
   \<and> ((\<forall>r\<in>set rs. \<not> is_success r) \<longrightarrow>
        collectAny stack rs None = FailureResult (all_errors rs))"
proof -
  have a: "(\<exists>r\<in>set rs. is_success r) \<longrightarrow> collectAny stack rs src = SuccessResult (all_data rs)"
    using all_data_empty_iff [of rs] by (auto simp: collectAny_eq)
  have b: "(\<forall>r\<in>set rs. \<not> is_success r) \<longrightarrow>
        collectAny stack rs src = FailureResult (map (backfill src) (all_errors rs))"
    using all_data_empty_iff [of rs] by (simp add: collectAny_eq)
  have c: "(\<forall>r\<in>set rs. \<not> is_success r) \<longrightarrow>
        collectAny stack rs None = FailureResult (all_errors rs)"
    using all_data_empty_iff [of rs] by (simp add: collectAny_eq backfill_None)
  from a b c show ?thesis by blast
qed

theorem collectAny_policy_witness:
  "collectAny None
     [FailureResult [\<lparr> code = [], message = ''x'', location = [], source = [] \<rparr>],
      SuccessResult (5::nat),
      FailureResult [\<lparr> code = [], message = ''y'', location = [], source = [] \<rparr>]] None
     = SuccessResult [5]
   \<and> collectAny None
     [FailureResult [\<lparr> code = [], message = ''x'', location = [], source = [] \<rparr>],
      FailureResult [\<lparr> code = [], message = ''y'', location = [], source = ''io'' \<rparr>] :: nat ResultContainer] (Some ''svc'')
     = FailureResult [\<lparr> code = [], message = ''x'', location = [], source = ''svc'' \<rparr>,
                      \<lparr> code = [], message = ''y'', location = [], source = ''io'' \<rparr>]"
  using
    collectAny_policy [where rs = "[FailureResult [\<lparr> code = [], message = ''x'', location = [], source = [] \<rparr>],
      SuccessResult (5::nat),
      FailureResult [\<lparr> code = [], message = ''y'', location = [], source = [] \<rparr>]]"
      and stack = None and src = None]
    collectAny_policy [where rs = "[FailureResult [\<lparr> code = [], message = ''x'', location = [], source = [] \<rparr>],
      FailureResult [\<lparr> code = [], message = ''y'', location = [], source = ''io'' \<rparr>] :: nat ResultContainer]"
      and stack = None and src = "Some ''svc''"]
  by (simp add: all_data_def all_errors_def backfill_def)

text \<open>
  The claim as stated fails where a source is supplied: the returned record is not the
  input's record, its empty source has been replaced.
\<close>

theorem collectAny_concat_counterexample:
  "collectAny None
     [FailureResult [\<lparr> code = [], message = ''x'', location = [], source = [] \<rparr>] :: nat ResultContainer]
     (Some ''svc'')
   \<noteq> FailureResult [\<lparr> code = [], message = ''x'', location = [], source = [] \<rparr>]"
  by (simp add: collectAny_def collect_step_def failure_def convertError_def new_GeneralError_def
      spread_def toBag_def)

text \<open>
  Claim C5, as amended. Whenever the failing entries carry at least one error,
  \<open>compose\<close> returns a Failure with the concatenation, in iteration order, of every
  failing entry's errors, each record's source back-filled by the source argument when
  its own source is empty. When every entry succeeds (the keys being distinct and none
  of them \<open>__proto__\<close>), it returns Success with the object built by assigning each
  entry's data under its key: the object holds under each original key that entry's
  data, and its entries are in the input's iteration order whenever that order is property
  order, as it is for every plain-object input.
\<close>

theorem compose_policy:
  "(all_errors (map snd (entries kr)) \<noteq> [] \<longrightarrow>
      compose stack kr src = FailureResult (map (backfill src) (all_errors (map snd (entries kr)))))
   \<and> (entries kr = map (\<lambda>kv. (fst kv, SuccessResult (snd kv))) kvs
        \<and> distinct (map fst kvs) \<and> ''__proto__'' \<notin> fst ` set kvs \<longrightarrow>
      compose stack kr src = SuccessResult (from_entries kvs)
      \<and> map_of (from_entries kvs) = map_of kvs
      \<and> distinct (map fst (from_entries kvs))
      \<and> (property_ordered (map fst kvs) \<longrightarrow> from_entries kvs = kvs))"
proof -
  have f: "all_errors (map snd (entries kr)) \<noteq> [] \<longrightarrow>
      compose stack kr src = FailureResult (map (backfill src) (all_errors (map snd (entries kr))))"
    by (simp add: compose_eq)
  have s: "compose stack kr src = SuccessResult (from_entries kvs)
      \<and> map_of (from_entries kvs) = map_of kvs
      \<and> distinct (map fst (from_entries kvs))
      \<and> (property_ordered (map fst kvs) \<longrightarrow> from_entries kvs = kvs)"
    if e: "entries kr = map (\<lambda>kv. (fst kv, SuccessResult (snd kv))) kvs"
      and d: "distinct (map fst kvs)" and p: "''__proto__'' \<notin> fst ` set kvs"
  proof -
    have "all_errors (map snd (entries kr)) = []"
      unfolding e by (induction kvs) (simp_all add: all_errors_simps)
    moreover have "succeeded (entries kr) = kvs"
      unfolding e by (induction kvs) (simp_all add: succeeded_simps)
    ultimately have "compose stack kr src = SuccessResult (from_entries kvs)"
      by (simp add: compose_eq)
    with from_entries_lookup [OF d p] from_entries_set(2) [OF d p] from_entries_ordered [OF d p]
    show ?thesis by simp
  qed
  from f s show ?thesis by blast
qed

theorem compose_policy_witness:
  "compose None
     (OfRecord [(''a'', SuccessResult (1::nat)),
                (''b'', FailureResult [\<lparr> code = [], message = ''e'', location = [], source = [] \<rparr>])])
     (Some ''svc'')
     = FailureResult [\<lparr> code = [], message = ''e'', location = [], source = ''svc'' \<rparr>]
   \<and> compose None (OfRecord [(''a'', SuccessResult (1::nat)), (''b'', SuccessResult 2)]) None
     = SuccessResult [(''a'', 1), (''b'', 2)]
   \<and> compose None (OfMap [(''7'', SuccessResult (1::nat)), (''10'', SuccessResult 2), (''x'', SuccessResult 3)]) None
     = SuccessResult [(''7'', 1), (''10'', 2), (''x'', 3)]"
proof -
  have idx: "array_index ''a'' = None" "array_index ''b'' = None" "array_index ''x'' = None"
    "array_index ''7'' = Some 7" "array_index ''10'' = Some 10"
    by (simp_all add: array_index_def is_digit_def digits_value_def)
  have a: "compose None
     (OfRecord [(''a'', SuccessResult (1::nat)),
                (''b'', FailureResult [\<lparr> code = [], message = ''e'', location = [], source = [] \<rparr>])])
     (Some ''svc'')
     = FailureResult [\<lparr> code = [], message = ''e'', location = [], source = ''svc'' \<rparr>]"
    using compose_policy [where kr = "OfRecord [(''a'', SuccessResult (1::nat)),
                (''b'', FailureResult [\<lparr> code = [], message = ''e'', location = [], source = [] \<rparr>])]"
        and stack = None and src = "Some ''svc''" and kvs = "[]"]
    by (simp add: entries_def all_errors_def backfill_def)
  have b: "compose None (OfRecord [(''a'', SuccessResult (1::nat)), (''b'', SuccessResult 2)]) None
     = SuccessResult [(''a'', 1), (''b'', 2)]"
    using compose_policy [where kr = "OfRecord [(''a'', SuccessResult (1::nat)), (''b'', SuccessResult 2)]"
        and stack = None and src = None and kvs = "[(''a'', 1), (''b'', 2)]"]
    by (simp add: entries_def idx)
  have c: "compose None (OfMap [(''7'', SuccessResult (1::nat)), (''10'', SuccessResult 2), (''x'', SuccessResult 3)]) None
     = SuccessResult [(''7'', 1), (''10'', 2), (''x'', 3)]"
    using compose_policy [where kr = "OfMap [(''7'', SuccessResult (1::nat)), (''10'', SuccessResult 2), (''x'', SuccessResult 3)]"
        and stack = None and src = None and kvs = "[(''7'', 1), (''10'', 2), (''x'', 3)]"]
    by (simp add: entries_def idx)
  from a b c show ?thesis by blast
qed

text \<open>
  The claim as stated fails: with a source supplied the returned record differs from the
  failing entry's record, and a \<open>Map\<close> that lists an array-index key after another key
  comes back with that key first.
\<close>

theorem compose_concat_counterexample:
  "compose None
     (OfRecord [(''a'', SuccessResult (1::nat)),
                (''b'', FailureResult [\<lparr> code = [], message = ''e'', location = [], source = [] \<rparr>])])
     (Some ''svc'')
   \<noteq> FailureResult [\<lparr> code = [], message = ''e'', location = [], source = [] \<rparr>]
   \<and> compose None (OfMap [(''b'', SuccessResult (1::nat)), (''1'', SuccessResult 2)]) None
     = SuccessResult [(''1'', 2), (''b'', 1)]"
  by (simp add: compose_eq entries_def all_errors_def backfill_def succeeded_def from_entries_def
      js_set_def array_index_def is_digit_def digits_value_def)

text \<open>
  Claim C10. When the source argument is a non-empty string, every record of a Failure
  returned by \<open>failure\<close>, \<open>wrap\<close>, \<open>collect\<close>, \<open>collectAny\<close>, \<open>compose\<close> or
  \<open>composeAny\<close> has a non-empty source: a record whose own source was not empty keeps
  it, a record whose source was empty and a string receive the supplied source, and the
  record that \<open>wrap\<close> synthesizes carries the supplied source.
\<close>

theorem failure_sources:
  assumes "s \<noteq> []"
  shows
    "(let r = (failure stack (Single x) (Some s) :: 'a ResultContainer) in
        \<not> is_success r \<and> map source (errors r) = [expected_source s x]
        \<and> (\<forall>e\<in>set (errors r). source e \<noteq> []))
     \<and> (let r = (failure stack (Many xs) (Some s) :: 'a ResultContainer) in
        \<not> is_success r \<and> map source (errors r) = map (expected_source s) xs
        \<and> (\<forall>e\<in>set (errors r). source e \<noteq> []))
     \<and> (let r = wrap stack (d :: 'a option) errs (Some s) in
        \<not> is_success r \<longrightarrow>
          map source (errors r) =
            (case errs of Some (y # ys) \<Rightarrow> map (expected_source s) (y # ys) | _ \<Rightarrow> [s])
          \<and> (\<forall>e\<in>set (errors r). source e \<noteq> []))
     \<and> (let r = collect stack (rs :: 'a ResultContainer list) (Some s) in
        \<not> is_success r \<longrightarrow>
          map source (errors r) = map (\<lambda>e. expected_source s (Err e)) (all_errors rs)
          \<and> (\<forall>e\<in>set (errors r). source e \<noteq> []))
     \<and> (let r = collectAny stack rs (Some s) in
        \<not> is_success r \<longrightarrow>
          map source (errors r) = map (\<lambda>e. expected_source s (Err e)) (all_errors rs)
          \<and> (\<forall>e\<in>set (errors r). source e \<noteq> []))
     \<and> (let r = compose stack (kr :: 'a ResultContainer keyed) (Some s) in
        \<not> is_success r \<longrightarrow>
          map source (errors r) =
            map (\<lambda>e. expected_source s (Err e)) (all_errors (map snd (entries kr)))
          \<and> (\<forall>e\<in>set (errors r). source e \<noteq> []))
     \<and> (let r = composeAny stack kr (Some s) in
        \<not> is_success r \<longrightarrow>
          map source (errors r) =
            map (\<lambda>e. expected_source s (Err e)) (all_errors (map snd (entries kr)))
          \<and> (\<forall>e\<in>set (errors r). source e \<noteq> []))"
proof -
  note ne = expected_source_nonempty [OF assms]
  have f: "(failure stack (Many ys) (Some s) :: 'a ResultContainer)
      = FailureResult (map (normalize stack (Some s)) ys)" for ys
    by (simp add: failure_def convertError_normalize)
  have f1: "let r = (failure stack (Single x) (Some s) :: 'a ResultContainer) in
        \<not> is_success r \<and> map source (errors r) = [expected_source s x]
        \<and> (\<forall>e\<in>set (errors r). source e \<noteq> [])"
    by (simp add: failure_def convertError_normalize source_normalize ne)
  have f2: "let r = (failure stack (Many xs) (Some s) :: 'a ResultContainer) in
        \<not> is_success r \<and> map source (errors r) = map (expected_source s) xs
        \<and> (\<forall>e\<in>set (errors r). source e \<noteq> [])"
    by (simp add: f source_normalize ne comp_def)
  have w: "let r = wrap stack d errs (Some s) in
        \<not> is_success r \<longrightarrow>
          map source (errors r) =
            (case errs of Some (y # ys) \<Rightarrow> map (expected_source s) (y # ys) | _ \<Rightarrow> [s])
          \<and> (\<forall>e\<in>set (errors r). source e \<noteq> [])"
  proof (cases "\<exists>y ys. errs = Some (y # ys)")
    case True
    then obtain y ys where "errs = Some (y # ys)" by blast
    then show ?thesis
      by (simp add: wrap_def f source_normalize ne comp_def)
  next
    case False
    then have e: "errs = None \<or> errs = Some []"
    proof (cases errs)
      case None
      then show ?thesis by simp
    next
      case (Some a)
      with False show ?thesis by (cases a) simp_all
    qed
    then show ?thesis using assms
      by (cases d)
        (auto simp: wrap_def success_def failure_def convertError_def new_GeneralError_def
          spread_def toBag_def)
  qed
  have c: "let r = collect stack rs (Some s) in
        \<not> is_success r \<longrightarrow>
          map source (errors r) = map (\<lambda>e. expected_source s (Err e)) (all_errors rs)
          \<and> (\<forall>e\<in>set (errors r). source e \<noteq> [])"
    by (simp add: collect_eq source_backfill ne comp_def)
  have ca: "let r = collectAny stack rs (Some s) in
        \<not> is_success r \<longrightarrow>
          map source (errors r) = map (\<lambda>e. expected_source s (Err e)) (all_errors rs)
          \<and> (\<forall>e\<in>set (errors r). source e \<noteq> [])"
    by (simp add: collectAny_eq source_backfill ne comp_def)
  have k: "let r = compose stack kr (Some s) in
        \<not> is_success r \<longrightarrow>
          map source (errors r) =
            map (\<lambda>e. expected_source s (Err e)) (all_errors (map snd (entries kr)))
          \<and> (\<forall>e\<in>set (errors r). source e \<noteq> [])"
    by (simp add: compose_eq source_backfill ne comp_def)
  have ka: "let r = composeAny stack kr (Some s) in
        \<not> is_success r \<longrightarrow>
          map source (errors r) =
            map (\<lambda>e. expected_source s (Err e)) (all_errors (map snd (entries kr)))
          \<and> (\<forall>e\<in>set (errors r). source e \<noteq> [])"
    by (simp add: composeAny_eq source_backfill ne comp_def)
  from f1 f2 w c ca k ka show ?thesis by blast
qed

theorem failure_sources_witness:
  "map source (errors (failure None
       (Many [Str ''boom'',
              Err \<lparr> code = [], message = ''x'', location = [], source = [] \<rparr>,
              Err \<lparr> code = [], message = ''y'', location = [], source = ''io'' \<rparr>])
       (Some ''svc'') :: nat ResultContainer))
     = [''svc'', ''svc'', ''io'']
   \<and> map source (errors (failure None (Single (Str ''boom'')) (Some ''svc'') :: nat ResultContainer))
     = [''svc'']
   \<and> map source (errors (wrap None (None :: nat option) None (Some ''svc''))) = [''svc'']
   \<and> map source (errors (collect None
       [FailureResult [\<lparr> code = [], message = ''x'', location = [], source = [] \<rparr>,
                       \<lparr> code = [], message = ''y'', location = [], source = ''io'' \<rparr>],
        SuccessResult (1::nat)] (Some ''svc'')))
     = [''svc'', ''io'']
   \<and> map source (errors (collectAny None
       [FailureResult [\<lparr> code = [], message = ''x'', location = [], source = [] \<rparr>,
                       \<lparr> code = [], message = ''y'', location = [], source = ''io'' \<rparr>]
          :: nat ResultContainer] (Some ''svc'')))
     = [''svc'', ''io'']
   \<and> map source (errors (compose None
       (OfRecord [(''a'', FailureResult [\<lparr> code = [], message = ''x'', location = [], source = [] \<rparr>,
                       \<lparr> code = [], message = ''y'', location = [], source = ''io'' \<rparr>]
          :: nat ResultContainer)]) (Some ''svc'')))
     = [''svc'', ''io'']
   \<and> map source (errors (composeAny None
       (OfRecord [(''a'', FailureResult [\<lparr> code = [], message = ''x'', location = [], source = [] \<rparr>,
                       \<lparr> code = [], message = ''y'', location = [], source = ''io'' \<rparr>]
          :: nat ResultContainer)]) (Some ''svc'')))
     = [''svc'', ''io'']"
proof -
  let ?e1 = "\<lparr> code = [], message = ''x'', location = [], source = [] \<rparr>"
  let ?e2 = "\<lparr> code = [], message = ''y'', location = [], source = ''io'' \<rparr>"
  let ?rs = "[FailureResult [?e1, ?e2], SuccessResult (1::nat)]"
  let ?rs' = "[FailureResult [?e1, ?e2] :: nat ResultContainer]"
  let ?kr = "OfRecord [(''a'', FailureResult [?e1, ?e2] :: nat ResultContainer)]"
  have s: "''svc'' \<noteq> []" by simp
  have h: "\<not> is_success (wrap None (None :: nat option) None (Some ''svc''))"
    "\<not> is_success (collect None ?rs (Some ''svc''))"
    "\<not> is_success (collectAny None ?rs' (Some ''svc''))"
    "\<not> is_success (compose None ?kr (Some ''svc''))"
    "\<not> is_success (composeAny None ?kr (Some ''svc''))"
    by (simp_all add: wrap_def failure_def collect_def collectAny_def compose_def composeAny_def
        collect_step_def compose_step_def entries_def)
  have v: "all_errors ?rs = [?e1, ?e2]" "all_errors ?rs' = [?e1, ?e2]"
    "all_errors (map snd (entries ?kr)) = [?e1, ?e2]"
    "expected_source ''svc'' (Str ''boom'') = ''svc''"
    "expected_source ''svc'' (Err ?e1) = ''svc''"
    "expected_source ''svc'' (Err ?e2) = ''io''"
    by (simp_all add: all_errors_def entries_def expected_source_def own_source_def)
  from failure_sources [OF s, where ?'a = nat and stack = None and x = "Str ''boom''"
      and xs = "[Str ''boom'', Err ?e1, Err ?e2]" and d = None and errs = None
      and rs = ?rs and kr = ?kr]
    failure_sources [OF s, where ?'a = nat and stack = None and x = "Str ''boom''"
      and xs = "[]" and d = None and errs = None and rs = ?rs' and kr = ?kr]
    h v
  show ?thesis by (simp add: Let_def)
qed

end
